theory Spec2Isabelle
  imports Main
begin

section \<open>The alitiq demand forecast client\<close>

text \<open>
  A shallow embedding of \<^verbatim>\<open>alitiq/demand_forecast.py\<close>: the class
  \<^verbatim>\<open>alitiqDemandAPI\<close> with its three operations \<^verbatim>\<open>get_measurements\<close>,
  \<^verbatim>\<open>post_measurements\<close> and \<^verbatim>\<open>get_forecast\<close>.  Exceptions are values of
  the type \<open>error\<close> (\<open>Inl\<close> of a sum), the requests that leave the process are
  appended to an explicit log that every operation takes and returns, and what
  the module imports (the clock, the remote service, pandas, json, the pydantic
  form and the forecast model enumeration) is collected in one record of
  parameters.
\<close>

subsection \<open>Exceptions\<close>

text \<open>
  The Python exceptions the module can raise (\<open>ValueError\<close>, \<open>KeyError\<close>,
  \<open>AttributeError\<close>, \<open>OverflowError\<close>, \<open>TypeError\<close>), pydantic's \<open>ValidationError\<close> (with
  its rendering \<^verbatim>\<open>str(e)\<close>), and the error taxonomy of the request layer.
\<close>

datatype error =
    ValidationError string
  | ValueError string
  | KeyError
  | AttributeError
  | OverflowError
  | TypeError
  | AuthenticationError
  | RequestError nat string
  | TransportError
  | ConfigurationError
  | ParseError

subsection \<open>\<^verbatim>\<open>datetime\<close> and \<^verbatim>\<open>timedelta(days=n)\<close>\<close>

text \<open>
  A naive \<^verbatim>\<open>datetime\<close> is its seven fields.  Python's constructor only builds
  values with \<open>1 \<le> year \<le> 9999\<close>, \<open>1 \<le> month \<le> 12\<close>, a day that exists in
  that month, and a time of day in range: \<open>valid_datetime\<close>.
\<close>

record datetime =
  year :: nat
  month :: nat
  day :: nat
  hour :: nat
  minute :: nat
  second :: nat
  microsecond :: nat

definition is_leap :: "nat \<Rightarrow> bool" where
  "is_leap y = (y mod 4 = 0 \<and> (y mod 100 \<noteq> 0 \<or> y mod 400 = 0))"

definition days_in_month :: "nat \<Rightarrow> nat \<Rightarrow> nat" where
  "days_in_month y m =
     (if m = 2 then (if is_leap y then 29 else 28)
      else if m = 4 \<or> m = 6 \<or> m = 9 \<or> m = 11 then 30 else 31)"

definition valid_datetime :: "datetime \<Rightarrow> bool" where
  "valid_datetime d =
     (1 \<le> year d \<and> year d \<le> 9999 \<and> 1 \<le> month d \<and> month d \<le> 12 \<and>
      1 \<le> day d \<and> day d \<le> days_in_month (year d) (month d) \<and>
      hour d < 24 \<and> minute d < 60 \<and> second d < 60 \<and> microsecond d < 1000000)"

text \<open>
  The proleptic Gregorian ordinal of the date (day 1 is 0001-01-01), as
  \<^verbatim>\<open>datetime.toordinal\<close> computes it.
\<close>

definition days_before_year :: "nat \<Rightarrow> nat" where
  "days_before_year y =
     (y - 1) * 365 + (y - 1) div 4 + (y - 1) div 400 - (y - 1) div 100"

definition days_before_month :: "nat \<Rightarrow> nat \<Rightarrow> nat" where
  "days_before_month y m = sum_list (map (days_in_month y) [1..<m])"

definition toordinal :: "datetime \<Rightarrow> nat" where
  "toordinal d = days_before_year (year d) + days_before_month (year d) (month d) + day d"

text \<open>
  \<^verbatim>\<open>d - timedelta(days=n)\<close>: the date moves back one calendar day \<open>n\<close> times,
  the time of day stays.  A result before 0001-01-01 is Python's
  \<^verbatim>\<open>OverflowError: date value out of range\<close>.
\<close>

definition prev_day :: "datetime \<Rightarrow> error + datetime" where
  "prev_day d =
     (if 1 < day d then Inr (d\<lparr>day := day d - 1\<rparr>)
      else if 1 < month d then
        Inr (d\<lparr>month := month d - 1, day := days_in_month (year d) (month d - 1)\<rparr>)
      else if 1 < year d then Inr (d\<lparr>year := year d - 1, month := 12, day := 31\<rparr>)
      else Inl OverflowError)"

fun datetime_sub_days :: "datetime \<Rightarrow> nat \<Rightarrow> error + datetime" where
  "datetime_sub_days d 0 = Inr d"
| "datetime_sub_days d (Suc n) =
     (case prev_day d of Inl e \<Rightarrow> Inl e | Inr d' \<Rightarrow> datetime_sub_days d' n)"

text \<open>
  \<^verbatim>\<open>d.strftime("%Y-%m-%dT%H:%M:%S")\<close>: zero-padded decimal fields; the
  microseconds are not printed.  (For years below 1000 the padding of \<^verbatim>\<open>%Y\<close>
  is left to the C library by older interpreters; the model pads.)
\<close>

definition digit_char :: "nat \<Rightarrow> char" where
  "digit_char n = ''0123456789'' ! (n mod 10)"

fun zero_padded :: "nat \<Rightarrow> nat \<Rightarrow> string" where
  "zero_padded 0 n = []"
| "zero_padded (Suc k) n = zero_padded k (n div 10) @ [digit_char n]"

definition strftime :: "datetime \<Rightarrow> string" where
  "strftime d =
     zero_padded 4 (year d) @ ''-'' @ zero_padded 2 (month d) @ ''-'' @ zero_padded 2 (day d)
     @ ''T'' @ zero_padded 2 (hour d) @ '':'' @ zero_padded 2 (minute d) @ '':''
     @ zero_padded 2 (second d)"

subsection \<open>The request layer\<close>

datatype http_method = GET | POST

text \<open>\<^verbatim>\<open>Services\<close>: the module uses the one member \<^verbatim>\<open>DEMAND_FORECAST\<close>.\<close>

datatype Services = DEMAND_FORECAST

text \<open>A query parameter value is a string or an integer; \<open>None\<close> is Python's \<^verbatim>\<open>None\<close>.\<close>

datatype param_value = PStr string | PInt int

text \<open>What leaves the process: one HTTP request.\<close>

record request =
  req_method :: http_method
  req_service :: Services
  req_path :: string
  req_api_key :: string
  req_query :: "(string \<times> param_value) list"
  req_body :: "string option"

text \<open>What comes back: a network-level failure, or a status code and a body.\<close>

datatype http_reply = NetworkFailure | HttpResponse nat string

text \<open>The client instance: \<^verbatim>\<open>__init__\<close> fixes the service scope.\<close>

record alitiqDemandAPI =
  api_key :: string
  service :: Services

definition init :: "string \<Rightarrow> alitiqDemandAPI" where
  "init key = \<lparr>api_key = key, service = DEMAND_FORECAST\<rparr>"

text \<open>
  Arguments typed \<^verbatim>\<open>Union[str, ForecastModels]\<close> and
  \<^verbatim>\<open>Union[EngineMeasurementForm, List[EngineMeasurementForm]]\<close>.
\<close>

datatype 'fm model_arg = ByStr string | ByMember 'fm

datatype 'm measurements_arg = Single 'm | Many "'m list"

text \<open>
  The names the module imports and does not define.
  \<^item> \<open>now\<close>: the value of \<^verbatim>\<open>datetime.now()\<close> during the call;
  \<^item> \<open>send\<close>: the remote service, the reply to each request;
  \<^item> \<open>read_json\<close>: \<^verbatim>\<open>pd.read_json(StringIO(body), orient=o)\<close>, a table or an error;
  \<^item> \<open>json_dumps\<close>: \<^verbatim>\<open>json.dumps\<close> on a list of record dictionaries, the text or
    an exception (a \<open>TypeError\<close> for a value that JSON cannot hold);
  \<^item> \<open>dict_method\<close>: \<^verbatim>\<open>EngineMeasurementForm.dict\<close>, a dictionary or an exception;
  \<^item> \<open>enum_lookup\<close>: the by-value lookup of \<^verbatim>\<open>ForecastModels(value)\<close>, \<open>None\<close>
    when no member has that value;
  \<^item> \<open>py_repr\<close>: the builtin \<^verbatim>\<open>repr\<close> on strings (its choice of quotes and its
    escapes), which the enumeration uses in its error message;
  \<^item> \<open>ICON_EU\<close>: the member \<^verbatim>\<open>ForecastModels.ICON_EU\<close>;
  \<^item> \<open>NAMING\<close>: the dictionary \<^verbatim>\<open>FORECASTING_MODELS_TO_ALITIQ_MODEL_NAMING\<close>.
\<close>

record ('fm, 'm, 'd, 't) env =
  now :: datetime
  send :: "request \<Rightarrow> http_reply"
  read_json :: "string \<Rightarrow> string \<Rightarrow> error + 't"
  json_dumps :: "'d list \<Rightarrow> error + string"
  dict_method :: "'m \<Rightarrow> error + 'd"
  enum_lookup :: "string \<Rightarrow> 'fm option"
  py_repr :: "string \<Rightarrow> string"
  ICON_EU :: 'fm
  NAMING :: "'fm \<rightharpoonup> string"

text \<open>
  Modelled from the spec: \<^verbatim>\<open>alitiqAPIBase._request\<close> (module \<^verbatim>\<open>alitiq.base\<close>)
  is not among the sources.  Section 4.1 of the specification: the request
  carries the credential and the service scope; query parameters with value
  \<open>None\<close> are omitted from the outgoing request; the output is the response
  body as raw text; an unauthorized or forbidden status is
  \<open>AuthenticationError\<close>, any other non-2xx status is \<open>RequestError\<close> with the
  status code and the body, a network-level failure is \<open>TransportError\<close>; there
  are no retries, so one call sends exactly one request.
\<close>

definition omit_none :: "(string \<times> param_value option) list \<Rightarrow> (string \<times> param_value) list" where
  "omit_none params = List.map_filter (\<lambda>(k, v). map_option (Pair k) v) params"

definition alitiqAPIBase_request ::
  "('fm, 'm, 'd, 't) env \<Rightarrow> alitiqDemandAPI \<Rightarrow> http_method \<Rightarrow> string \<Rightarrow>
   (string \<times> param_value option) list \<Rightarrow> string option \<Rightarrow> request list \<Rightarrow>
   (error + string) \<times> request list" where
  "alitiqAPIBase_request e self method path params data sent =
     (let q = \<lparr>req_method = method, req_service = service self, req_path = path,
                req_api_key = api_key self, req_query = omit_none params, req_body = data\<rparr>
      in (case send e q of
            NetworkFailure \<Rightarrow> Inl TransportError
          | HttpResponse status body \<Rightarrow>
              if status = 401 \<or> status = 403 then Inl AuthenticationError
              else if 200 \<le> status \<and> status < 300 then Inr body
              else Inl (RequestError status body),
          sent @ [q]))"

subsection \<open>\<^verbatim>\<open>get_measurements\<close>\<close>

text \<open>
  Lines 63 to 65 replace both dates when \<open>end_date\<close> is \<open>None\<close>; lines 75 and 76
  call \<^verbatim>\<open>strftime\<close> on whatever the two variables hold then, and on \<open>None\<close>
  that is an \<open>AttributeError\<close>, raised while the parameter dictionary is built.
\<close>

definition default_dates ::
  "('fm, 'm, 'd, 't) env \<Rightarrow> datetime option \<Rightarrow> datetime option \<Rightarrow>
   error + (datetime option \<times> datetime option)" where
  "default_dates e start_date end_date =
     (case end_date of
        None \<Rightarrow>
          (case datetime_sub_days (now e) 2 of
             Inl err \<Rightarrow> Inl err
           | Inr s \<Rightarrow> Inr (Some s, Some (now e)))
      | Some _ \<Rightarrow> Inr (start_date, end_date))"

definition get_measurements ::
  "('fm, 'm, 'd, 't) env \<Rightarrow> alitiqDemandAPI \<Rightarrow> string \<Rightarrow> datetime option \<Rightarrow>
   datetime option \<Rightarrow> request list \<Rightarrow> (error + 't) \<times> request list" where
  "get_measurements e self location_id start_date end_date sent =
     (case default_dates e start_date end_date of
        Inl err \<Rightarrow> (Inl err, sent)
      | Inr (start_date', end_date') \<Rightarrow>
          (case start_date' of
             None \<Rightarrow> (Inl AttributeError, sent)
           | Some sd \<Rightarrow>
               (case end_date' of
                  None \<Rightarrow> (Inl AttributeError, sent)
                | Some ed \<Rightarrow>
                    (case alitiqAPIBase_request e self GET ''measurement/inspect''
                            [(''id_location'', Some (PStr location_id)),
                             (''response_format'', Some (PStr ''json'')),
                             (''start_date'', Some (PStr (strftime sd))),
                             (''end_date'', Some (PStr (strftime ed)))]
                            None sent of
                       (Inl err, sent') \<Rightarrow> (Inl err, sent')
                     | (Inr body, sent') \<Rightarrow> (read_json e body ''split'', sent')))))"

subsection \<open>\<^verbatim>\<open>post_measurements\<close>\<close>

text \<open>Line 100: anything that is not a list becomes a one-element list.\<close>

definition as_list :: "'m measurements_arg \<Rightarrow> 'm list" where
  "as_list measurements = (case measurements of Single m \<Rightarrow> [m] | Many ms \<Rightarrow> ms)"

text \<open>
  Line 104, the list comprehension: \<^verbatim>\<open>dict()\<close> is called on the records from
  left to right, and the first exception ends the comprehension.
\<close>

fun dict_all :: "('m \<Rightarrow> error + 'd) \<Rightarrow> 'm list \<Rightarrow> error + 'd list" where
  "dict_all f [] = Inr []"
| "dict_all f (m # ms) =
     (case f m of
        Inl err \<Rightarrow> Inl err
      | Inr d \<Rightarrow> (case dict_all f ms of Inl err \<Rightarrow> Inl err | Inr ds \<Rightarrow> Inr (d # ds)))"

text \<open>
  Lines 105 and 106: a \<open>ValidationError\<close> is caught and a \<open>ValueError\<close> with its
  rendering is raised in its place; any other exception passes through.
\<close>

fun except_ValidationError :: "error \<Rightarrow> error" where
  "except_ValidationError (ValidationError msg) =
     ValueError (''Validation failed for input data: '' @ msg)"
| "except_ValidationError err = err"

definition post_measurements ::
  "('fm, 'm, 'd, 't) env \<Rightarrow> alitiqDemandAPI \<Rightarrow> 'm measurements_arg \<Rightarrow> request list \<Rightarrow>
   (error + string) \<times> request list" where
  "post_measurements e self measurements sent =
     (case dict_all (dict_method e) (as_list measurements) of
        Inl err \<Rightarrow> (Inl (except_ValidationError err), sent)
      | Inr validated_data \<Rightarrow>
          (case json_dumps e validated_data of
             Inl err \<Rightarrow> (Inl err, sent)
           | Inr data \<Rightarrow>
               alitiqAPIBase_request e self POST ''measurement/add'' [] (Some data) sent))"

subsection \<open>\<^verbatim>\<open>get_forecast\<close>\<close>

text \<open>
  \<^verbatim>\<open>ForecastModels(x)\<close>: a member is returned as it is; any other value is
  looked up among the member values, and a miss is the enumeration's
  \<open>ValueError\<close>, whose message is \<^verbatim>\<open>repr(x)\<close> followed by
  \<^verbatim>\<open> is not a valid ForecastModels\<close>.
\<close>

definition ForecastModels_call ::
  "('fm, 'm, 'd, 't) env \<Rightarrow> 'fm model_arg \<Rightarrow> error + 'fm" where
  "ForecastModels_call e x =
     (case x of
        ByMember m \<Rightarrow> Inr m
      | ByStr s \<Rightarrow>
          (case enum_lookup e s of
             Some m \<Rightarrow> Inr m
           | None \<Rightarrow>
               Inl (ValueError (py_repr e s @ '' is not a valid ForecastModels''))))"

text \<open>Lines 136 to 139.\<close>

definition resolve_model ::
  "('fm, 'm, 'd, 't) env \<Rightarrow> 'fm model_arg option \<Rightarrow> error + 'fm" where
  "resolve_model e forecast_model =
     (case forecast_model of
        None \<Rightarrow> Inr (ICON_EU e)
      | Some x \<Rightarrow> ForecastModels_call e x)"

text \<open>
  Lines 141 to 163.  The subscript at line 149 is a plain dictionary lookup:
  a missing key is a \<open>KeyError\<close>, raised while the parameter dictionary is
  built.  Line 157 puts \<open>None\<close> under \<^verbatim>\<open>dt_calc\<close> when no datetime is given.
\<close>

definition get_forecast ::
  "('fm, 'm, 'd, 't) env \<Rightarrow> alitiqDemandAPI \<Rightarrow> string \<Rightarrow> 'fm model_arg option \<Rightarrow>
   datetime option \<Rightarrow> string \<Rightarrow> string \<Rightarrow> int \<Rightarrow> string \<Rightarrow> request list \<Rightarrow>
   (error + 't) \<times> request list" where
  "get_forecast e self location_id forecast_model dt_calc power_measure timezone
       interval_in_minutes window_boundary sent =
     (case resolve_model e forecast_model of
        Inl err \<Rightarrow> (Inl err, sent)
      | Inr fm \<Rightarrow>
          (case NAMING e fm of
             None \<Rightarrow> (Inl KeyError, sent)
           | Some weather_model \<Rightarrow>
               (case alitiqAPIBase_request e self GET ''forecast''
                       [(''id_location'', Some (PStr location_id)),
                        (''response_format'', Some (PStr ''json'')),
                        (''weather_model'', Some (PStr weather_model)),
                        (''power_measure'', Some (PStr power_measure)),
                        (''timezone'', Some (PStr timezone)),
                        (''interval_in_minutes'', Some (PInt interval_in_minutes)),
                        (''window_boundary'', Some (PStr window_boundary)),
                        (''dt_calc'', map_option (\<lambda>d. PStr (strftime d)) dt_calc)]
                       None sent of
                  (Inl err, sent') \<Rightarrow> (Inl err, sent')
                | (Inr body, sent') \<Rightarrow> (read_json e body ''split'', sent'))))"

subsection \<open>An example environment\<close>

text \<open>
  A small concrete instance of the imported names, on which the operations can
  be evaluated: the clock reads 2024-03-01 12:30:45.000123; the service answers
  every request with status 200 and a split-orientation body; tables are the
  body text; a measurement form is an integer, a negative one standing for a
  record that holds invalid data; \<^verbatim>\<open>dict()\<close> validates nothing and renders
  whatever the record holds, as pydantic's does; \<^verbatim>\<open>json.dumps\<close> concatenates;
  \<^verbatim>\<open>repr\<close> puts a string in single quotes, which is Python's result for the
  strings used here (letters, digits, \<^verbatim>\<open>-\<close> and \<^verbatim>\<open>_\<close>); the enumeration has
  the members \<^verbatim>\<open>ICON_EU\<close> and \<^verbatim>\<open>ARPEGE\<close> with the values \<^verbatim>\<open>icon_eu\<close> and
  \<^verbatim>\<open>arpege\<close>; the naming table has an entry for \<^verbatim>\<open>ICON_EU\<close> only.
\<close>

definition example_now :: datetime where
  "example_now = \<lparr>year = 2024, month = 3, day = 1, hour = 12, minute = 30, second = 45,
                    microsecond = 123\<rparr>"

definition example_body :: string where
  "example_body = ''{index:[0,1],columns:[a],data:[[1],[2]]}''"

definition example_dict :: "int \<Rightarrow> error + string" where
  "example_dict v =
     Inr (if v < 0 then ''-'' @ zero_padded 2 (nat (- v)) else zero_padded 2 (nat v))"

definition example_repr :: "string \<Rightarrow> string" where
  "example_repr s = [CHR 0x27] @ s @ [CHR 0x27]"

definition example_env :: "(string, int, string, string) env" where
  "example_env =
     \<lparr>now = example_now,
      send = (\<lambda>q. HttpResponse 200 example_body),
      read_json = (\<lambda>body orient. Inr body),
      json_dumps = (\<lambda>ds. Inr (concat ds)),
      dict_method = example_dict,
      enum_lookup = (\<lambda>s. if s = ''icon_eu'' then Some ''ICON_EU''
                           else if s = ''arpege'' then Some ''ARPEGE'' else None),
      py_repr = example_repr,
      ICON_EU = ''ICON_EU'',
      NAMING = [''ICON_EU'' \<mapsto> ''icon-eu'']\<rparr>"

text \<open>The two requests the example calls send.\<close>

definition example_measurement_request :: request where
  "example_measurement_request =
     \<lparr>req_method = GET, req_service = DEMAND_FORECAST, req_path = ''measurement/inspect'',
      req_api_key = ''key'',
      req_query = [(''id_location'', PStr ''loc-1''), (''response_format'', PStr ''json''),
                   (''start_date'', PStr ''2024-02-28T12:30:45''),
                   (''end_date'', PStr ''2024-03-01T12:30:45'')],
      req_body = None\<rparr>"

definition example_forecast_request :: request where
  "example_forecast_request =
     \<lparr>req_method = GET, req_service = DEMAND_FORECAST, req_path = ''forecast'',
      req_api_key = ''key'',
      req_query = [(''id_location'', PStr ''loc-1''), (''response_format'', PStr ''json''),
                   (''weather_model'', PStr ''icon-eu''), (''power_measure'', PStr ''kW''),
                   (''timezone'', PStr ''UTC''), (''interval_in_minutes'', PInt 15),
                   (''window_boundary'', PStr ''end'')],
      req_body = None\<rparr>"

section \<open>Properties\<close>

subsection \<open>Calendar arithmetic\<close>

text \<open>
  Moving back one calendar day lowers the ordinal of the date by one and keeps
  the time of day, so \<^verbatim>\<open>d - timedelta(days=n)\<close> is the datetime \<open>n\<close> days
  earlier, and it overflows exactly when there is no such day.
\<close>

lemma days_before_month_Suc:
  "1 \<le> m \<Longrightarrow> days_before_month y (Suc m) = days_before_month y m + days_in_month y m"
  by (simp add: days_before_month_def)

lemma days_before_month_12:
  "days_before_month y 12 + 31 = (if is_leap y then 366 else 365)"
proof -
  have "[1..<12] = [1,2,3,4,5,6,7,8,9,10,11::nat]" by (simp add: upt_rec)
  then show ?thesis by (simp add: days_before_month_def days_in_month_def)
qed

lemma mod_chain:
  fixes n :: nat
  shows "n mod 400 = 0 \<Longrightarrow> n mod 100 = 0" and "n mod 100 = 0 \<Longrightarrow> n mod 4 = 0"
proof -
  have a: "(100::nat) dvd 400" and b: "(4::nat) dvd 100" by simp_all
  show "n mod 400 = 0 \<Longrightarrow> n mod 100 = 0"
    using dvd_trans [OF a, of n] by (simp add: mod_eq_0_iff_dvd)
  show "n mod 100 = 0 \<Longrightarrow> n mod 4 = 0"
    using dvd_trans [OF b, of n] by (simp add: mod_eq_0_iff_dvd)
qed

lemma year_length_arith:
  fixes a b c k x4 x100 x400 len :: nat
  assumes "b \<le> a" and "x4 + x400 + 365 = x100 + len"
  shows "Suc k * 365 + (a + x4) + (c + x400) - (b + x100) = k * 365 + a + c - b + len"
  using assms by simp

lemma leap_balance:
  fixes p4 p100 p400 :: bool
  assumes "p400 \<Longrightarrow> p100" and "p100 \<Longrightarrow> p4"
  shows "(if p4 then 1 else 0) + (if p400 then 1 else 0) + 365 =
         (if p100 then 1 else 0) + (if p4 \<and> (\<not> p100 \<or> p400) then 366 else (365::nat))"
  using assms by (cases p4; cases p100; cases p400) simp_all

lemma days_before_year_Suc:
  assumes "1 \<le> y"
  shows "days_before_year (Suc y) = days_before_year y + (if is_leap y then 366 else 365)"
proof -
  obtain k where y: "y = Suc k" using assms by (cases y) auto
  define x4 :: nat where "x4 = (if Suc k mod 4 = 0 then 1 else 0)"
  define x100 :: nat where "x100 = (if Suc k mod 100 = 0 then 1 else 0)"
  define x400 :: nat where "x400 = (if Suc k mod 400 = 0 then 1 else 0)"
  define len :: nat where "len = (if is_leap (Suc k) then 366 else 365)"
  have le: "k div 100 \<le> k div 4" by (rule div_le_mono2) simp_all
  have d4: "Suc k div 4 = k div 4 + x4" by (simp add: div_Suc x4_def)
  have d100: "Suc k div 100 = k div 100 + x100" by (simp add: div_Suc x100_def)
  have d400: "Suc k div 400 = k div 400 + x400" by (simp add: div_Suc x400_def)
  have bal: "x4 + x400 + 365 = x100 + len"
    unfolding x4_def x100_def x400_def len_def is_leap_def
    by (rule leap_balance [OF mod_chain])
  show ?thesis
    unfolding y days_before_year_def diff_Suc_1 d4 d100 d400 len_def [symmetric]
    by (rule year_length_arith [OF le bal])
qed

lemma days_in_month_pos: "1 \<le> days_in_month y m"
  by (simp add: days_in_month_def)

lemma prev_day_ordinal:
  assumes v: "valid_datetime d" and p: "prev_day d = Inr d'"
  shows "toordinal d' + 1 = toordinal d"
proof (cases "1 < day d")
  case True
  with p have "d' = d\<lparr>day := day d - 1\<rparr>" by (simp add: prev_day_def)
  with True show ?thesis by (simp add: toordinal_def)
next
  case d1: False
  with v have day: "day d = 1" by (simp add: valid_datetime_def)
  show ?thesis
  proof (cases "1 < month d")
    case True
    with d1 p have d': "d' = d\<lparr>month := month d - 1, day := days_in_month (year d) (month d - 1)\<rparr>"
      by (simp add: prev_day_def)
    from True obtain m where m: "month d = Suc m" "1 \<le> m" by (cases "month d") auto
    show ?thesis
      using days_before_month_Suc [OF m(2), of "year d"]
      by (simp add: d' toordinal_def day m(1))
  next
    case m1: False
    with v have mon: "month d = 1" by (simp add: valid_datetime_def)
    from p d1 m1 have y: "1 < year d" and d': "d' = d\<lparr>year := year d - 1, month := 12, day := 31\<rparr>"
      by (auto simp: prev_day_def split: if_splits)
    from y obtain k where k: "year d = Suc k" "1 \<le> k" by (cases "year d") auto
    have "days_before_month (Suc k) 1 = 0" by (simp add: days_before_month_def)
    then show ?thesis
      using days_before_month_12 [of k] days_before_year_Suc [OF k(2)]
      by (simp add: d' toordinal_def day mon k split: if_splits)
  qed
qed

lemma prev_day_valid:
  assumes v: "valid_datetime d" and p: "prev_day d = Inr d'"
  shows "valid_datetime d'"
proof -
  consider (a) "1 < day d" "d' = d\<lparr>day := day d - 1\<rparr>"
    | (b) "1 < month d"
          "d' = d\<lparr>month := month d - 1, day := days_in_month (year d) (month d - 1)\<rparr>"
    | (c) "1 < year d" "d' = d\<lparr>year := year d - 1, month := 12, day := 31\<rparr>"
    using p by (auto simp: prev_day_def split: if_splits)
  then show ?thesis
  proof cases
    case a
    with v show ?thesis by (auto simp: valid_datetime_def)
  next
    case b
    with v days_in_month_pos [of "year d" "month d - 1"] show ?thesis
      by (auto simp: valid_datetime_def)
  next
    case c
    with v show ?thesis by (auto simp: valid_datetime_def days_in_month_def)
  qed
qed


lemma toordinal_pos: "valid_datetime d \<Longrightarrow> 1 \<le> toordinal d"
  by (simp add: toordinal_def valid_datetime_def)

lemma prev_day_overflow:
  assumes v: "valid_datetime d" and p: "prev_day d = Inl err"
  shows "err = OverflowError \<and> toordinal d = 1"
proof -
  from p have f: "day d \<le> 1" "month d \<le> 1" "year d \<le> 1" "err = OverflowError"
    by (auto simp: prev_day_def split: if_splits)
  with v have "day d = 1" "month d = 1" "year d = 1" by (auto simp: valid_datetime_def)
  then show ?thesis using f
    by (simp add: toordinal_def days_before_year_def days_before_month_def)
qed



lemma sub_days_overflow:
  "valid_datetime d \<Longrightarrow> toordinal d \<le> n \<Longrightarrow> datetime_sub_days d n = Inl OverflowError"
proof (induction n arbitrary: d)
  case 0
  with toordinal_pos [of d] show ?case by simp
next
  case (Suc n)
  show ?case
  proof (cases "prev_day d")
    case (Inl err)
    from prev_day_overflow [OF Suc.prems(1) Inl] Inl show ?thesis by simp
  next
    case (Inr d1)
    from prev_day_ordinal [OF Suc.prems(1) Inr] Suc.prems(2) have "toordinal d1 \<le> n" by simp
    from Suc.IH [OF prev_day_valid [OF Suc.prems(1) Inr] this] Inr show ?thesis by simp
  qed
qed

subsection \<open>The request layer, as modelled\<close>

lemma request_log:
  "snd (alitiqAPIBase_request e self method path params data sent) =
     sent @ [\<lparr>req_method = method, req_service = service self, req_path = path,
              req_api_key = api_key self, req_query = omit_none params, req_body = data\<rparr>]"
  by (simp add: alitiqAPIBase_request_def Let_def)

lemma request_result:
  "fst (alitiqAPIBase_request e self method path params data sent) =
     (case send e \<lparr>req_method = method, req_service = service self, req_path = path,
              req_api_key = api_key self, req_query = omit_none params, req_body = data\<rparr> of
        NetworkFailure \<Rightarrow> Inl TransportError
      | HttpResponse status body \<Rightarrow>
          if status = 401 \<or> status = 403 then Inl AuthenticationError
          else if 200 \<le> status \<and> status < 300 then Inr body
          else Inl (RequestError status body))"
  by (simp add: alitiqAPIBase_request_def Let_def)

lemma omit_none_Nil: "omit_none [] = []"
  by (simp add: omit_none_def List.map_filter_simps)

lemma omit_none_Some: "omit_none ((k, Some v) # ps) = (k, v) # omit_none ps"
  by (simp add: omit_none_def List.map_filter_simps)

lemma omit_none_None: "omit_none ((k, None) # ps) = omit_none ps"
  by (simp add: omit_none_def List.map_filter_simps)

lemma omit_none_iff: "(k, v) \<in> set (omit_none ps) \<longleftrightarrow> (k, Some v) \<in> set ps"
  by (induction ps) (auto simp: omit_none_def List.map_filter_simps split: option.splits)

subsection \<open>The example environment, evaluated\<close>

lemma zero_padded_2: "zero_padded 2 n = [digit_char (n div 10), digit_char n]"
proof -
  have "zero_padded (Suc (Suc 0)) n = [digit_char (n div 10), digit_char n]" by simp
  then show ?thesis by (simp only: numeral_2_eq_2)
qed

lemma zero_padded_4:
  "zero_padded 4 n =
     [digit_char (n div 1000), digit_char (n div 100), digit_char (n div 10), digit_char n]"
proof -
  have "zero_padded (Suc (Suc (Suc (Suc 0)))) n =
     [digit_char (n div 1000), digit_char (n div 100), digit_char (n div 10), digit_char n]"
    by (simp add: div_mult2_eq [symmetric])
  moreover have "(4::nat) = Suc (Suc (Suc (Suc 0)))" by simp
  ultimately show ?thesis by (simp only:)
qed




lemma example_strftime:
  "strftime example_now = ''2024-03-01T12:30:45''"
  "strftime (example_now\<lparr>month := 2, day := 28\<rparr>) = ''2024-02-28T12:30:45''"
  by (simp_all add: strftime_def example_now_def zero_padded_2 zero_padded_4 digit_char_def)

lemma example_env_simps:
  "now example_env = example_now"
  "send example_env = (\<lambda>q. HttpResponse 200 example_body)"
  "read_json example_env = (\<lambda>body orient. Inr body)"
  "json_dumps example_env = (\<lambda>ds. Inr (concat ds))"
  "dict_method example_env = example_dict"
  "py_repr example_env = example_repr"
  "ICON_EU example_env = ''ICON_EU''"
  by (simp_all add: example_env_def)

lemma example_dict_total: "\<not> isl (example_dict v)"
  by (simp add: example_dict_def)

lemma example_dict_simps:
  "example_dict 1 = Inr ''01''" "example_dict 2 = Inr ''02''" "example_dict 3 = Inr ''03''"
  "example_dict 7 = Inr ''07''"
  "example_dict (- 2) = Inr ''-02''"
  by (simp_all add: example_dict_def zero_padded_2 digit_char_def)

lemma example_resolve:
  "resolve_model example_env None = Inr ''ICON_EU''"
  "resolve_model example_env (Some (ByStr ''arpege'')) = Inr ''ARPEGE''"
  "resolve_model example_env (Some (ByMember ''ARPEGE'')) = Inr ''ARPEGE''"
  "enum_lookup example_env ''string-that-is-not-a-model'' = None"
  "enum_lookup example_env ''ICON_EU'' = None"
  "NAMING example_env ''ICON_EU'' = Some ''icon-eu''"
  "NAMING example_env ''ARPEGE'' = None"
  by (simp_all add: resolve_model_def ForecastModels_call_def example_env_def)

subsection \<open>\<^verbatim>\<open>get_measurements\<close>: the date arguments\<close>

lemma get_measurements_log:
  "snd (get_measurements e self loc (Some sd) (Some ed) sent) =
     sent @ [\<lparr>req_method = GET, req_service = service self, req_path = ''measurement/inspect'',
              req_api_key = api_key self,
              req_query = [(''id_location'', PStr loc), (''response_format'', PStr ''json''),
                           (''start_date'', PStr (strftime sd)), (''end_date'', PStr (strftime ed))],
              req_body = None\<rparr>]"
proof -
  let ?r = "alitiqAPIBase_request e self GET ''measurement/inspect''
              [(''id_location'', Some (PStr loc)), (''response_format'', Some (PStr ''json'')),
               (''start_date'', Some (PStr (strftime sd))),
               (''end_date'', Some (PStr (strftime ed)))]
              None sent"
  have "snd (get_measurements e self loc (Some sd) (Some ed) sent) = snd ?r"
    by (simp add: get_measurements_def default_dates_def split: prod.splits sum.splits)
  then show ?thesis
    by (simp add: request_log omit_none_Some omit_none_Nil)
qed

text \<open>
  Claim C9.  A call of \<^verbatim>\<open>get_measurements\<close> with an \<open>end_date\<close> and without a
  \<open>start_date\<close> fails: the defaulting at lines 63 to 65 is skipped, line 75 calls
  \<^verbatim>\<open>strftime\<close> on \<open>None\<close>, and the \<open>AttributeError\<close> is raised while the
  parameters are built, so the log of requests is returned unchanged.
\<close>

theorem get_measurements_end_without_start:
  "get_measurements e self loc None (Some ed) sent = (Inl AttributeError, sent)"
  by (simp add: get_measurements_def default_dates_def)

theorem get_measurements_end_without_start_witness:
  "get_measurements example_env (init ''key'') ''loc-1'' None (Some example_now) []
     = (Inl AttributeError, [])"
  using get_measurements_end_without_start [of example_env "init ''key''" "''loc-1''" example_now "[]"]
  by simp





subsection \<open>\<^verbatim>\<open>post_measurements\<close>: validation and serialization\<close>

lemma dict_all_ok:
  "\<forall>m\<in>set ms. \<not> isl (f m) \<Longrightarrow> dict_all f ms = Inr (map (\<lambda>m. projr (f m)) ms)"
proof (induction ms)
  case Nil
  then show ?case by simp
next
  case (Cons m ms)
  then obtain d where "f m = Inr d" by (cases "f m") auto
  with Cons show ?case by simp
qed

lemma dict_all_first_failure:
  "\<forall>x\<in>set pre. \<not> isl (f x) \<Longrightarrow> f bad = Inl err \<Longrightarrow> dict_all f (pre @ bad # post) = Inl err"
proof (induction pre)
  case Nil
  then show ?case by simp
next
  case (Cons x pre)
  then obtain d where "f x = Inr d" by (cases "f x") auto
  with Cons show ?case by simp
qed

text \<open>
  The handler of lines 105 and 106, on the only path that reaches it: should
  \<^verbatim>\<open>dict()\<close> raise a \<open>ValidationError\<close> for a record, the records before it
  having a dictionary, the call fails with a \<open>ValueError\<close> that carries the
  rendering of that one error, and nothing is sent.
\<close>

lemma post_measurements_reraises:
  assumes "\<forall>x\<in>set pre. \<not> isl (dict_method e x)"
    and "dict_method e bad = Inl (ValidationError msg)"
  shows "post_measurements e self (Many (pre @ bad # post)) sent =
           (Inl (ValueError (''Validation failed for input data: '' @ msg)), sent)"
  using dict_all_first_failure [OF assms, of post]
  by (simp add: post_measurements_def as_list_def)

text \<open>
  Claim C1 does not hold of the code.  \<^verbatim>\<open>post_measurements\<close> validates
  nothing itself: all it does with a record is call \<^verbatim>\<open>dict()\<close>.  Where
  \<^verbatim>\<open>dict()\<close> serializes without validating (it raises for no record) and
  \<^verbatim>\<open>json.dumps\<close> returns, every input, whatever its records hold, is sent in
  one request, and the result is that of the request layer: never a
  \<open>ValidationError\<close>, and never the \<open>ValueError\<close> of the handler.
\<close>

theorem post_measurements_never_validates:
  assumes "\<forall>m. \<not> isl (dict_method e m)" and "\<forall>ds. \<not> isl (json_dumps e ds)"
  shows "post_measurements e self (Many ms) sent =
           alitiqAPIBase_request e self POST ''measurement/add'' []
             (Some (projr (json_dumps e (map (\<lambda>m. projr (dict_method e m)) ms)))) sent
         \<and> snd (post_measurements e self (Many ms) sent) =
             sent @ [\<lparr>req_method = POST, req_service = service self,
                      req_path = ''measurement/add'', req_api_key = api_key self,
                      req_query = [],
                      req_body = Some (projr (json_dumps e
                                   (map (\<lambda>m. projr (dict_method e m)) ms)))\<rparr>]
         \<and> fst (post_measurements e self (Many ms) sent) \<noteq> Inl (ValidationError msg)
         \<and> fst (post_measurements e self (Many ms) sent) \<noteq> Inl (ValueError msg)
         \<and> post_measurements e self (Single m) sent = post_measurements e self (Many [m]) sent"
proof -
  let ?ds = "map (\<lambda>m. projr (dict_method e m)) ms"
  let ?r = "alitiqAPIBase_request e self POST ''measurement/add'' []
              (Some (projr (json_dumps e ?ds))) sent"
  from assms(1) have d: "dict_all (dict_method e) ms = Inr ?ds"
    by (intro dict_all_ok) simp
  from assms(2) have "\<not> isl (json_dumps e ?ds)" by blast
  then obtain data where j: "json_dumps e ?ds = Inr data"
    by (cases "json_dumps e ?ds") auto
  have p: "post_measurements e self (Many ms) sent = ?r"
    by (simp add: post_measurements_def as_list_def d j)
  have f: "fst ?r \<noteq> Inl (ValidationError msg) \<and> fst ?r \<noteq> Inl (ValueError msg)"
    by (simp add: request_result split: http_reply.splits)
  have s: "post_measurements e self (Single m) sent = post_measurements e self (Many [m]) sent"
    by (simp add: post_measurements_def as_list_def)
  have l: "snd ?r = sent @ [\<lparr>req_method = POST, req_service = service self,
                      req_path = ''measurement/add'', req_api_key = api_key self,
                      req_query = [],
                      req_body = Some (projr (json_dumps e ?ds))\<rparr>]"
    by (simp add: request_log omit_none_Nil)
  from p f s l show ?thesis by simp
qed

theorem post_measurements_never_validates_witness:
  "(\<forall>m. \<not> isl (dict_method example_env m)) \<and> (\<forall>ds. \<not> isl (json_dumps example_env ds)) \<and>
   post_measurements example_env (init ''key'') (Many [1, - 2]) [] =
     (Inr example_body,
      [\<lparr>req_method = POST, req_service = DEMAND_FORECAST, req_path = ''measurement/add'',
        req_api_key = ''key'', req_query = [], req_body = Some ''01-02''\<rparr>])"
proof -
  have a: "\<forall>m. \<not> isl (dict_method example_env m)"
    by (simp add: example_env_simps example_dict_total)
  have b: "\<forall>ds. \<not> isl (json_dumps example_env ds)"
    by (simp add: example_env_simps)
  from post_measurements_never_validates [OF a b, where self = "init ''key''"
      and ms = "[1, - 2]" and sent = "[]", THEN conjunct1]
  have "post_measurements example_env (init ''key'') (Many [1, - 2]) [] =
     (Inr example_body,
      [\<lparr>req_method = POST, req_service = DEMAND_FORECAST, req_path = ''measurement/add'',
        req_api_key = ''key'', req_query = [], req_body = Some ''01-02''\<rparr>])"
    by (simp add: alitiqAPIBase_request_def Let_def omit_none_Nil example_env_simps
        example_dict_simps init_def)
  with a b show ?thesis by blast
qed

text \<open>
  Claim C6.  A single record is normalized to a one-element list and a list is
  taken as it is.  When every record of the list has a dictionary, the list
  handed to \<^verbatim>\<open>json.dumps\<close> is the list of the records' dictionaries, one for
  each record and in the order of the input, and its text is the body of the
  one request sent.  (Should \<^verbatim>\<open>json.dumps\<close> raise, its exception is the result
  and nothing is sent.)
\<close>

theorem post_measurements_valid:
  assumes "\<forall>m\<in>set ms. \<not> isl (dict_method e m)"
  shows "as_list (Single m0) = [m0] \<and> as_list (Many ms) = ms \<and>
         post_measurements e self (Single m0) sent = post_measurements e self (Many [m0]) sent \<and>
         dict_all (dict_method e) ms = Inr (map (\<lambda>m. projr (dict_method e m)) ms) \<and>
         post_measurements e self (Many ms) sent =
           (case json_dumps e (map (\<lambda>m. projr (dict_method e m)) ms) of
              Inl err \<Rightarrow> (Inl err, sent)
            | Inr data \<Rightarrow>
                alitiqAPIBase_request e self POST ''measurement/add'' [] (Some data) sent)
         \<and> (case json_dumps e (map (\<lambda>m. projr (dict_method e m)) ms) of
              Inl err \<Rightarrow> snd (post_measurements e self (Many ms) sent) = sent
            | Inr data \<Rightarrow>
                snd (post_measurements e self (Many ms) sent) =
                  sent @ [\<lparr>req_method = POST, req_service = service self,
                           req_path = ''measurement/add'', req_api_key = api_key self,
                           req_query = [], req_body = Some data\<rparr>])"
proof -
  have p: "post_measurements e self (Many ms) sent =
           (case json_dumps e (map (\<lambda>m. projr (dict_method e m)) ms) of
              Inl err \<Rightarrow> (Inl err, sent)
            | Inr data \<Rightarrow>
                alitiqAPIBase_request e self POST ''measurement/add'' [] (Some data) sent)"
    by (simp add: post_measurements_def as_list_def dict_all_ok [OF assms])
  have l: "case json_dumps e (map (\<lambda>m. projr (dict_method e m)) ms) of
              Inl err \<Rightarrow> snd (post_measurements e self (Many ms) sent) = sent
            | Inr data \<Rightarrow>
                snd (post_measurements e self (Many ms) sent) =
                  sent @ [\<lparr>req_method = POST, req_service = service self,
                           req_path = ''measurement/add'', req_api_key = api_key self,
                           req_query = [], req_body = Some data\<rparr>]"
    by (simp add: p request_log omit_none_Nil split: sum.splits)
  have s: "post_measurements e self (Single m0) sent = post_measurements e self (Many [m0]) sent"
    by (simp add: post_measurements_def as_list_def)
  have a: "as_list (Single m0) = [m0]" "as_list (Many ms) = ms"
    by (simp_all add: as_list_def)
  from a s dict_all_ok [OF assms] p l show ?thesis by blast
qed

theorem post_measurements_valid_witness:
  "snd (post_measurements example_env (init ''key'') (Many [1, 2, 3]) []) =
     [\<lparr>req_method = POST, req_service = DEMAND_FORECAST, req_path = ''measurement/add'',
       req_api_key = ''key'', req_query = [], req_body = Some ''010203''\<rparr>]
   \<and> snd (post_measurements example_env (init ''key'') (Single 7) []) =
     [\<lparr>req_method = POST, req_service = DEMAND_FORECAST, req_path = ''measurement/add'',
       req_api_key = ''key'', req_query = [], req_body = Some ''07''\<rparr>]"
proof -
  have a: "\<forall>m\<in>set [1, 2, 3 :: int]. \<not> isl (dict_method example_env m)"
    by (simp add: example_env_simps example_dict_total)
  have b: "\<forall>m\<in>set [7 :: int]. \<not> isl (dict_method example_env m)"
    by (simp add: example_env_simps example_dict_total)
  note many = post_measurements_valid [OF a, where self = "init ''key''" and sent = "[]",
      THEN conjunct2, THEN conjunct2, THEN conjunct2, THEN conjunct2, THEN conjunct2]
  note single = post_measurements_valid [OF b, where self = "init ''key''" and sent = "[]"
      and ?m0.0 = 7]
  from many have m: "snd (post_measurements example_env (init ''key'') (Many [1, 2, 3]) []) =
     [\<lparr>req_method = POST, req_service = DEMAND_FORECAST, req_path = ''measurement/add'',
       req_api_key = ''key'', req_query = [], req_body = Some ''010203''\<rparr>]"
    by (simp add: example_env_simps example_dict_simps init_def)
  from single have eq: "post_measurements example_env (init ''key'') (Single 7) [] =
      post_measurements example_env (init ''key'') (Many [7]) []"
    by blast
  from single [THEN conjunct2, THEN conjunct2, THEN conjunct2, THEN conjunct2, THEN conjunct2]
  have "snd (post_measurements example_env (init ''key'') (Many [7]) []) =
     [\<lparr>req_method = POST, req_service = DEMAND_FORECAST, req_path = ''measurement/add'',
       req_api_key = ''key'', req_query = [], req_body = Some ''07''\<rparr>]"
    by (simp add: example_env_simps example_dict_simps init_def)
  with eq m show ?thesis by simp
qed

subsection \<open>\<^verbatim>\<open>get_forecast\<close>: the forecast model\<close>

lemma get_forecast_unresolved:
  "resolve_model e fm = Inl err \<Longrightarrow>
     get_forecast e self loc fm dt pm tz i wb sent = (Inl err, sent)"
  by (simp add: get_forecast_def)

lemma get_forecast_log:
  assumes "resolve_model e fm = Inr m" and "NAMING e m = Some name"
  shows "snd (get_forecast e self loc fm dt pm tz i wb sent) =
     sent @ [\<lparr>req_method = GET, req_service = service self, req_path = ''forecast'',
              req_api_key = api_key self,
              req_query = [(''id_location'', PStr loc), (''response_format'', PStr ''json''),
                           (''weather_model'', PStr name), (''power_measure'', PStr pm),
                           (''timezone'', PStr tz), (''interval_in_minutes'', PInt i),
                           (''window_boundary'', PStr wb)]
                          @ (case dt of None \<Rightarrow> [] | Some d \<Rightarrow> [(''dt_calc'', PStr (strftime d))]),
              req_body = None\<rparr>]"
proof -
  let ?r = "alitiqAPIBase_request e self GET ''forecast''
              [(''id_location'', Some (PStr loc)), (''response_format'', Some (PStr ''json'')),
               (''weather_model'', Some (PStr name)), (''power_measure'', Some (PStr pm)),
               (''timezone'', Some (PStr tz)), (''interval_in_minutes'', Some (PInt i)),
               (''window_boundary'', Some (PStr wb)),
               (''dt_calc'', map_option (\<lambda>d. PStr (strftime d)) dt)]
              None sent"
  have "snd (get_forecast e self loc fm dt pm tz i wb sent) = snd ?r"
    using assms by (simp add: get_forecast_def split: prod.splits sum.splits)
  then show ?thesis
    by (cases dt) (simp_all add: request_log omit_none_Some omit_none_None omit_none_Nil)
qed

text \<open>
  Claim C3, as the code has it.  A string that is not the value of a member of
  \<^verbatim>\<open>ForecastModels\<close> makes \<^verbatim>\<open>get_forecast\<close> fail with the \<open>ValueError\<close> of
  the enumeration's constructor; there is no fallback to a default model, and
  no request is sent.
\<close>

theorem get_forecast_unknown_string:
  assumes "enum_lookup e s = None"
  shows "get_forecast e self loc (Some (ByStr s)) dt pm tz i wb sent =
           (Inl (ValueError (py_repr e s @ '' is not a valid ForecastModels'')), sent)"
  using assms by (simp add: get_forecast_def resolve_model_def ForecastModels_call_def)

theorem get_forecast_unknown_string_witness:
  "enum_lookup example_env ''ICON_EU'' = None \<and>
   get_forecast example_env (init ''key'') ''loc-1'' (Some (ByStr ''ICON_EU'')) None
       ''kW'' ''UTC'' 15 ''end'' [] =
     (Inl (ValueError ([CHR 0x27] @ ''ICON_EU'' @ [CHR 0x27] @ '' is not a valid ForecastModels'')),
      [])"
  using get_forecast_unknown_string [OF example_resolve(5), where self = "init ''key''"
      and loc = "''loc-1''" and dt = None and pm = "''kW''" and tz = "''UTC''" and i = 15
      and wb = "''end''" and sent = "[]"]
  by (simp add: example_resolve example_env_simps example_repr_def)

text \<open>
  Claim C3, as stated, at the string \<^verbatim>\<open>string-that-is-not-a-model\<close>: the
  failure is a \<open>ValueError\<close>, not a \<open>ValidationError\<close>.
\<close>

theorem get_forecast_unknown_string_counterexample:
  "get_forecast example_env (init ''key'') ''loc-1'' (Some (ByStr ''string-that-is-not-a-model''))
       None ''kW'' ''UTC'' 15 ''end'' [] =
     (Inl (ValueError ([CHR 0x27] @ ''string-that-is-not-a-model'' @ [CHR 0x27]
                        @ '' is not a valid ForecastModels'')), [])"
  by (simp add: get_forecast_def resolve_model_def ForecastModels_call_def example_resolve
      example_env_simps example_repr_def)

text \<open>
  Claim C4, as the code has it.  When the naming table has no entry for the
  resolved member, the subscript at line 149 raises \<open>KeyError\<close>; nothing checks
  the table beforehand, and no request is sent.
\<close>

theorem get_forecast_missing_name:
  assumes "resolve_model e fm = Inr m" and "NAMING e m = None"
  shows "get_forecast e self loc fm dt pm tz i wb sent = (Inl KeyError, sent)"
  using assms by (simp add: get_forecast_def)

theorem get_forecast_missing_name_witness:
  "resolve_model example_env (Some (ByMember ''ARPEGE'')) = Inr ''ARPEGE'' \<and>
   NAMING example_env ''ARPEGE'' = None \<and>
   get_forecast example_env (init ''key'') ''loc-1'' (Some (ByMember ''ARPEGE'')) None
       ''kW'' ''UTC'' 15 ''end'' [] = (Inl KeyError, [])"
  using get_forecast_missing_name [OF example_resolve(3) example_resolve(7),
      where self = "init ''key''" and loc = "''loc-1''" and dt = None and pm = "''kW''"
      and tz = "''UTC''" and i = 15 and wb = "''end''" and sent = "[]"]
  by (simp add: example_resolve)

text \<open>
  Claim C4, as stated, at a member without an entry in the table (\<^verbatim>\<open>ARPEGE\<close>
  in the example environment): the failure is a \<open>KeyError\<close>, not a
  \<open>ConfigurationError\<close>.
\<close>

theorem get_forecast_missing_name_counterexample:
  "get_forecast example_env (init ''key'') ''loc-1'' (Some (ByStr ''arpege'')) None
       ''kW'' ''UTC'' 15 ''end'' [] = (Inl KeyError, [])"
  by (simp add: get_forecast_def example_resolve)

text \<open>
  Claim C5.  With \<open>forecast_model\<close> omitted the model is the fixed member
  \<^verbatim>\<open>ICON_EU\<close>, and the request sent carries, as \<^verbatim>\<open>weather_model\<close>, the name
  the naming table assigns to that member.
\<close>

theorem get_forecast_default_model:
  assumes "NAMING e (ICON_EU e) = Some name"
  shows "resolve_model e None = Inr (ICON_EU e) \<and>
     snd (get_forecast e self loc None dt pm tz i wb sent) =
     sent @ [\<lparr>req_method = GET, req_service = service self, req_path = ''forecast'',
              req_api_key = api_key self,
              req_query = [(''id_location'', PStr loc), (''response_format'', PStr ''json''),
                           (''weather_model'', PStr name), (''power_measure'', PStr pm),
                           (''timezone'', PStr tz), (''interval_in_minutes'', PInt i),
                           (''window_boundary'', PStr wb)]
                          @ (case dt of None \<Rightarrow> [] | Some d \<Rightarrow> [(''dt_calc'', PStr (strftime d))]),
              req_body = None\<rparr>]"
proof -
  have r: "resolve_model e None = Inr (ICON_EU e)" by (simp add: resolve_model_def)
  from get_forecast_log [OF r assms] r show ?thesis by simp
qed

theorem get_forecast_default_model_witness:
  "NAMING example_env (ICON_EU example_env) = Some ''icon-eu'' \<and>
   snd (get_forecast example_env (init ''key'') ''loc-1'' None (Some example_now)
          ''kW'' ''UTC'' 15 ''end'' []) =
     [\<lparr>req_method = GET, req_service = DEMAND_FORECAST, req_path = ''forecast'',
       req_api_key = ''key'',
       req_query = [(''id_location'', PStr ''loc-1''), (''response_format'', PStr ''json''),
                    (''weather_model'', PStr ''icon-eu''), (''power_measure'', PStr ''kW''),
                    (''timezone'', PStr ''UTC''), (''interval_in_minutes'', PInt 15),
                    (''window_boundary'', PStr ''end''),
                    (''dt_calc'', PStr ''2024-03-01T12:30:45'')],
       req_body = None\<rparr>]"
proof -
  have n: "NAMING example_env (ICON_EU example_env) = Some ''icon-eu''"
    by (simp add: example_env_simps example_resolve)
  from get_forecast_default_model [OF n, where self = "init ''key''" and loc = "''loc-1''"
      and dt = "Some example_now" and pm = "''kW''" and tz = "''UTC''" and i = 15
      and wb = "''end''" and sent = "[]", THEN conjunct2] n
  show ?thesis by (simp add: init_def example_strftime)
qed

subsection \<open>Parameters without a value\<close>

lemma get_forecast_no_request:
  "(\<exists>m name. resolve_model e fm = Inr m \<and> NAMING e m = Some name) \<or>
   snd (get_forecast e self loc fm dt pm tz i wb sent) = sent"
  by (cases "resolve_model e fm"; cases "NAMING e (projr (resolve_model e fm))")
     (auto simp: get_forecast_def)

text \<open>
  Claim C7.  A query parameter whose value is \<open>None\<close> is absent from the
  outgoing request: no request that \<^verbatim>\<open>get_forecast\<close> sends without a
  \<open>dt_calc\<close> has a \<^verbatim>\<open>dt_calc\<close> parameter, and the query of every request
  that the request layer sends consists of exactly the parameters that were
  given a value.
\<close>

theorem get_forecast_omits_dt_calc:
  "(\<forall>q\<in>set (drop (length sent) (snd (get_forecast e self loc fm None pm tz i wb sent))).
      ''dt_calc'' \<notin> fst ` set (req_query q))
   \<and> (\<forall>k v. (k, v) \<in> set (req_query (last (snd
          (alitiqAPIBase_request e self method path params data sent'))))
        \<longleftrightarrow> (k, Some v) \<in> set params)"
proof
  from get_forecast_no_request [of e fm self loc None pm tz i wb sent]
  show "\<forall>q\<in>set (drop (length sent) (snd (get_forecast e self loc fm None pm tz i wb sent))).
      ''dt_calc'' \<notin> fst ` set (req_query q)"
  proof
    assume "\<exists>m name. resolve_model e fm = Inr m \<and> NAMING e m = Some name"
    then obtain m name where "resolve_model e fm = Inr m" "NAMING e m = Some name" by blast
    from get_forecast_log [OF this, of self loc None pm tz i wb sent]
    show ?thesis by simp
  next
    assume "snd (get_forecast e self loc fm None pm tz i wb sent) = sent"
    then show ?thesis by simp
  qed
  show "\<forall>k v. (k, v) \<in> set (req_query (last (snd
          (alitiqAPIBase_request e self method path params data sent'))))
        \<longleftrightarrow> (k, Some v) \<in> set params"
    by (simp add: request_log omit_none_iff)
qed

theorem get_forecast_omits_dt_calc_witness:
  "snd (get_forecast example_env (init ''key'') ''loc-1'' None None ''kW'' ''UTC'' 15 ''end'' []) =
     [\<lparr>req_method = GET, req_service = DEMAND_FORECAST, req_path = ''forecast'',
       req_api_key = ''key'',
       req_query = [(''id_location'', PStr ''loc-1''), (''response_format'', PStr ''json''),
                    (''weather_model'', PStr ''icon-eu''), (''power_measure'', PStr ''kW''),
                    (''timezone'', PStr ''UTC''), (''interval_in_minutes'', PInt 15),
                    (''window_boundary'', PStr ''end'')],
       req_body = None\<rparr>]
   \<and> ''dt_calc'' \<notin> fst ` set (req_query (hd (snd
         (get_forecast example_env (init ''key'') ''loc-1'' None None ''kW'' ''UTC'' 15 ''end'' []))))"
proof -
  let ?log = "snd (get_forecast example_env (init ''key'') ''loc-1'' None None
                     ''kW'' ''UTC'' 15 ''end'' [])"
  have l: "?log =
     [\<lparr>req_method = GET, req_service = DEMAND_FORECAST, req_path = ''forecast'',
       req_api_key = ''key'',
       req_query = [(''id_location'', PStr ''loc-1''), (''response_format'', PStr ''json''),
                    (''weather_model'', PStr ''icon-eu''), (''power_measure'', PStr ''kW''),
                    (''timezone'', PStr ''UTC''), (''interval_in_minutes'', PInt 15),
                    (''window_boundary'', PStr ''end'')],
       req_body = None\<rparr>]"
    using get_forecast_log [OF example_resolve(1) example_resolve(6), of "init ''key''"
        "''loc-1''" None "''kW''" "''UTC''" 15 "''end''" "[]"]
    by (simp add: init_def)
  then have "hd ?log \<in> set (drop (length ([] :: request list)) ?log)" by simp
  with get_forecast_omits_dt_calc [THEN conjunct1, of "[]" example_env "init ''key''" "''loc-1''"
      None "''kW''" "''UTC''" 15 "''end''"]
  have "''dt_calc'' \<notin> fst ` set (req_query (hd ?log))" by blast
  with l show ?thesis by blast
qed

subsection \<open>Decoding the response\<close>

lemma get_measurements_parses:
  assumes "snd (get_measurements e self loc sd ed sent) = sent @ [q]"
    and "send e q = HttpResponse st body" and "200 \<le> st" and "st < 300"
  shows "fst (get_measurements e self loc sd ed sent) = read_json e body ''split''"
  using assms
  by (auto simp: get_measurements_def alitiqAPIBase_request_def Let_def
      split: sum.splits option.splits prod.splits if_splits)

lemma get_forecast_parses:
  assumes "snd (get_forecast e self loc fm dt pm tz i wb sent) = sent @ [q]"
    and "send e q = HttpResponse st body" and "200 \<le> st" and "st < 300"
  shows "fst (get_forecast e self loc fm dt pm tz i wb sent) = read_json e body ''split''"
  using assms
  by (auto simp: get_forecast_def alitiqAPIBase_request_def Let_def
      split: sum.splits option.splits prod.splits if_splits)

text \<open>
  Claim C8.  \<^verbatim>\<open>get_forecast\<close> and \<^verbatim>\<open>get_measurements\<close> decode the response
  body by the same function, \<^verbatim>\<open>pd.read_json\<close> with \<^verbatim>\<open>orient="split"\<close>: when
  the service answers the request of each with a success status and the same
  body text, both return that function's result on the body, so the two tables
  (or the two decoding errors) are equal.
\<close>

theorem same_decoding:
  assumes "snd (get_measurements e self loc sd ed sent) = sent @ [q]"
    and "snd (get_forecast e self loc' fm dt pm tz i wb sent') = sent' @ [q']"
    and "send e q = HttpResponse st body" and "200 \<le> st" and "st < 300"
    and "send e q' = HttpResponse st' body" and "200 \<le> st'" and "st' < 300"
  shows "fst (get_measurements e self loc sd ed sent) = read_json e body ''split'' \<and>
         fst (get_forecast e self loc' fm dt pm tz i wb sent') = read_json e body ''split''"
  using get_measurements_parses [OF assms(1,3,4,5)] get_forecast_parses [OF assms(2,6,7,8)]
  by simp

theorem same_decoding_witness:
  "snd (get_measurements example_env (init ''key'') ''loc-1''
          (Some (example_now\<lparr>month := 2, day := 28\<rparr>)) (Some example_now) [])
     = [] @ [example_measurement_request]
   \<and> snd (get_forecast example_env (init ''key'') ''loc-1'' None None ''kW'' ''UTC'' 15 ''end'' [])
     = [] @ [example_forecast_request]
   \<and> send example_env example_measurement_request = HttpResponse 200 example_body
   \<and> send example_env example_forecast_request = HttpResponse 200 example_body
   \<and> fst (get_measurements example_env (init ''key'') ''loc-1''
          (Some (example_now\<lparr>month := 2, day := 28\<rparr>)) (Some example_now) [])
     = Inr example_body
   \<and> fst (get_forecast example_env (init ''key'') ''loc-1'' None None ''kW'' ''UTC'' 15 ''end'' [])
     = Inr example_body"
proof -
  have m: "snd (get_measurements example_env (init ''key'') ''loc-1''
          (Some (example_now\<lparr>month := 2, day := 28\<rparr>)) (Some example_now) [])
     = [] @ [example_measurement_request]"
    by (simp only: get_measurements_log)
       (simp add: example_measurement_request_def example_strftime init_def)
  have f: "snd (get_forecast example_env (init ''key'') ''loc-1'' None None
                  ''kW'' ''UTC'' 15 ''end'' [])
     = [] @ [example_forecast_request]"
    using get_forecast_log [OF example_resolve(1) example_resolve(6), of "init ''key''"
        "''loc-1''" None "''kW''" "''UTC''" 15 "''end''" "[]"]
    by (simp add: example_forecast_request_def init_def)
  have sm: "send example_env example_measurement_request = HttpResponse 200 example_body"
    and sf: "send example_env example_forecast_request = HttpResponse 200 example_body"
    by (simp_all add: example_env_simps)
  have b: "(200::nat) \<le> 200" "(200::nat) < 300" by simp_all
  from same_decoding [OF m f sm b sf b] m f sm sf show ?thesis
    by (simp add: example_env_simps)
qed

end
